theory Spec2Isabelle
  imports Main "HOL-Library.Word"
begin

section \<open>The MATRIX microphone array capture driver (src/src/matrixio-mic.c)\<close>

subsection \<open>Constants of the headers\<close>

text \<open>
  The driver includes \<^verbatim>\<open>matrixio-pcm.h\<close>, \<^verbatim>\<open>matrixio-core.h\<close> and \<^verbatim>\<open>fir_coeff.h\<close>, which
  define the period length, the register bases, the FIR tap count and the FIR coefficient
  table. Their values are parameters of the model, collected in one record; every
  function that uses one of them takes the record.

  \<open>FIR_Coeff\<close> holds the entries of the C array that precede its terminating entry
  (the one with \<open>rate_ = 0\<close>, on which the lookup loop of \<open>hw_params\<close> stops).
\<close>

type_synonym u16 = "16 word"

record matrixio_consts =
  MATRIXIO_PERIOD_FRAMES :: nat
  MATRIXIO_CONF_BASE :: nat
  MATRIXIO_MICARRAY_BASE :: nat
  MATRIXIO_FIR_TAP_SIZE :: nat
  FIR_Coeff :: "(nat \<times> u16 list) list"

text \<open>
  Error numbers and trigger commands of the kernel headers. A callback succeeds when it
  returns a value that is not negative; \<open>-EBUSY\<close> is the specification's Busy,
  \<open>-EINVAL\<close> its InvalidParameter and \<open>-ENOMEM\<close> its OutOfMemory. \<open>IRQ_NONE\<close>,
  \<open>IRQ_HANDLED\<close> and \<open>IRQ_WAKE_THREAD\<close> are its NotOurs, Handled and WakeThread.
\<close>

definition EINVAL :: int where "EINVAL = 22"
definition EBUSY :: int where "EBUSY = 16"

definition SNDRV_PCM_TRIGGER_STOP :: int where "SNDRV_PCM_TRIGGER_STOP = 0"
definition SNDRV_PCM_TRIGGER_START :: int where "SNDRV_PCM_TRIGGER_START = 1"

datatype irqreturn = IRQ_NONE | IRQ_HANDLED | IRQ_WAKE_THREAD

subsection \<open>Sample formats of the sound framework\<close>

datatype snd_pcm_format =
    SNDRV_PCM_FORMAT_S8 | SNDRV_PCM_FORMAT_U8
  | SNDRV_PCM_FORMAT_S16_LE | SNDRV_PCM_FORMAT_S16_BE
  | SNDRV_PCM_FORMAT_U16_LE | SNDRV_PCM_FORMAT_U16_BE
  | SNDRV_PCM_FORMAT_S24_LE | SNDRV_PCM_FORMAT_S24_BE
  | SNDRV_PCM_FORMAT_S32_LE | SNDRV_PCM_FORMAT_S32_BE
  | SNDRV_PCM_FORMAT_FLOAT_LE | SNDRV_PCM_FORMAT_FLOAT64_LE
  | SNDRV_PCM_FORMAT_MPEG

text \<open>
  \<open>snd_pcm_format_width\<close> belongs to the sound framework: the number of significant bits
  of a sample, or \<open>-EINVAL\<close> for a format without a fixed sample width.
\<close>

fun snd_pcm_format_width :: "snd_pcm_format \<Rightarrow> int" where
  "snd_pcm_format_width SNDRV_PCM_FORMAT_S8 = 8"
| "snd_pcm_format_width SNDRV_PCM_FORMAT_U8 = 8"
| "snd_pcm_format_width SNDRV_PCM_FORMAT_S16_LE = 16"
| "snd_pcm_format_width SNDRV_PCM_FORMAT_S16_BE = 16"
| "snd_pcm_format_width SNDRV_PCM_FORMAT_U16_LE = 16"
| "snd_pcm_format_width SNDRV_PCM_FORMAT_U16_BE = 16"
| "snd_pcm_format_width SNDRV_PCM_FORMAT_S24_LE = 24"
| "snd_pcm_format_width SNDRV_PCM_FORMAT_S24_BE = 24"
| "snd_pcm_format_width SNDRV_PCM_FORMAT_S32_LE = 32"
| "snd_pcm_format_width SNDRV_PCM_FORMAT_S32_BE = 32"
| "snd_pcm_format_width SNDRV_PCM_FORMAT_FLOAT_LE = 32"
| "snd_pcm_format_width SNDRV_PCM_FORMAT_FLOAT64_LE = 64"
| "snd_pcm_format_width SNDRV_PCM_FORMAT_MPEG = - EINVAL"

text \<open>
  The fields of \<open>struct snd_pcm_hw_params\<close> that the driver reads, named after the
  accessors it reads them with. The period size is carried along although
  \<open>matrixio_pcm_hw_params\<close> never reads it.
\<close>

record snd_pcm_hw_params =
  params_format :: snd_pcm_format
  params_rate :: nat
  params_period_size :: nat
  params_buffer_bytes :: nat

subsection \<open>Driver state\<close>

text \<open>
  A substream is known to the driver by its address. Its runtime is owned by the
  framework; the driver reads the geometry and writes the samples of \<open>dma_area\<close>
  (\<open>None\<close> is the null pointer). The sample format is 16 bits wide, so the area is a
  sequence of 16-bit words and frame \<open>f\<close> starts at word \<open>f * channels\<close>
  (\<open>frames_to_bytes\<close>).
\<close>

type_synonym substream_ptr = nat

record snd_pcm_runtime =
  dma_area :: "u16 list option"
  channels :: nat
  buffer_size :: nat
  period_size :: nat

text \<open>
  \<open>struct matrixio_mic_substream\<close>, reached through the global pointer \<open>ms\<close>, together
  with the runtimes of the framework. Bit 0 of \<open>flags\<close> is the running flag, bit 1 marks
  a bus transfer in flight; \<open>flags\<close> is an \<open>unsigned long\<close>, taken here at 32 bits, of
  which the driver uses these two. \<open>position\<close> only ever holds 0 or a frame index below
  the buffer size plus one period; frame counts are bounded by the buffer limit that the
  driver declares to the framework, far below the range of \<open>unsigned long\<close>, so this
  arithmetic never wraps and frame counts are natural numbers. The handles \<open>mio\<close> and
  \<open>irq\<close> never change after probe and are left out; \<open>worker_lock\<close> is rendered by the
  atomicity of the sections it guards.
\<close>

record driver_state =
  substream :: "substream_ptr option"
  flags :: "32 word"
  position :: nat
  frag_buffer :: "u16 list"
  runtimes :: "substream_ptr \<Rightarrow> snd_pcm_runtime"

text \<open>
  Calls into the bus, the framework and the kernel log, in program order. A formatted
  message carries its format string, with the line feed where the source has one, and
  its integer arguments.
\<close>

datatype effect =
    Matrixio_read nat nat
  | Matrixio_write nat nat "u16 list"
  | Regmap_write nat nat
  | Request_threaded_irq
  | Free_irq
  | Alloc_vmalloc_buffer substream_ptr nat
  | Free_vmalloc_buffer substream_ptr
  | Set_runtime_hwparams substream_ptr
  | Hw_constraint_integer substream_ptr
  | Hw_constraint_step substream_ptr nat
  | Hw_constraint_single substream_ptr nat
  | Set_sync substream_ptr
  | Period_elapsed substream_ptr
  | Smp_mb
  | Snd_BUG
  | Pcm_err string "int list"
  | Pcm_warn string
  | Pcm_dbg string

subsection \<open>The rate table\<close>

text \<open>Entries are (rate, decimation, gain), in the order of the source.\<close>

definition matrixio_params :: "(nat \<times> nat \<times> nat) list" where
  "matrixio_params =
     [(8000, 374, 1), (12000, 249, 2), (16000, 186, 3),
      (22050, 135, 5), (24000, 124, 5), (32000, 92, 6),
      (44100, 67, 7), (48000, 61, 7), (96000, 30, 10)]"

text \<open>
  The first loop of \<open>hw_params\<close>: at the first entry with the requested rate it writes
  the two registers and leaves the loop; \<open>None\<close> is the loop running to
  \<open>ARRAY_SIZE(matrixio_params)\<close>.
\<close>

fun params_loop :: "nat \<Rightarrow> (nat \<times> nat \<times> nat) list \<Rightarrow> nat \<Rightarrow> effect list option" where
  "params_loop base [] r = None"
| "params_loop base ((rt, dec, g) # rest) r =
     (if r = rt then Some [Regmap_write (base + 6) dec, Regmap_write (base + 7) g]
      else params_loop base rest r)"

text \<open>
  The second loop: it walks \<open>FIR_Coeff\<close> up to the entry with \<open>rate_ = 0\<close> and uploads
  the coefficients of the first entry with the requested rate; \<open>None\<close> is the loop
  stopping on the terminating entry.
\<close>

fun fir_loop :: "nat \<Rightarrow> nat \<Rightarrow> (nat \<times> u16 list) list \<Rightarrow> nat \<Rightarrow> effect list option" where
  "fir_loop base tap [] r = None"
| "fir_loop base tap ((rt, co) # rest) r =
     (if rt = 0 then None
      else if rt = r then Some [Matrixio_write base tap co]
      else fir_loop base tap rest r)"

subsection \<open>The framework callbacks\<close>

text \<open>
  Every callback returns its return value, the calls it made, and the state it leaves.
  The result of an external call is an argument of the callback: for
  \<open>snd_pcm_lib_alloc_vmalloc_buffer\<close> the pair of its return value and of the
  \<open>dma_area\<close> it leaves in the runtime.
\<close>

definition matrixio_pcm_hw_params ::
  "matrixio_consts \<Rightarrow> driver_state \<Rightarrow> substream_ptr \<Rightarrow> snd_pcm_hw_params \<Rightarrow>
   int \<times> u16 list option \<Rightarrow> int \<times> effect list \<times> driver_state" where
  "matrixio_pcm_hw_params cfg k p hp alloc =
     (if snd_pcm_format_width (params_format hp) \<noteq> 16 then (- EINVAL, [], k)
      else case params_loop (MATRIXIO_CONF_BASE cfg) matrixio_params (params_rate hp) of
        None \<Rightarrow> (- EINVAL, [], k)
      | Some e1 \<Rightarrow>
         (case fir_loop (MATRIXIO_MICARRAY_BASE cfg) (MATRIXIO_FIR_TAP_SIZE cfg)
                 (FIR_Coeff cfg) (params_rate hp) of
            None \<Rightarrow> (- EINVAL, e1, k)
          | Some e2 \<Rightarrow>
             (fst alloc,
              e1 @ e2 @ [Alloc_vmalloc_buffer p (params_buffer_bytes hp)],
              k\<lparr>runtimes := (runtimes k)(p := (runtimes k p)\<lparr>dma_area := snd alloc\<rparr>)\<rparr>)))"

definition matrixio_pcm_hw_free ::
  "driver_state \<Rightarrow> substream_ptr \<Rightarrow> int \<Rightarrow> int \<times> effect list \<times> driver_state" where
  "matrixio_pcm_hw_free k p free_ret =
     (free_ret,
      (if bit (flags k) 0 then [Snd_BUG] else []) @ [Free_vmalloc_buffer p],
      k\<lparr>runtimes := (runtimes k)(p := (runtimes k p)\<lparr>dma_area := None\<rparr>)\<rparr>)"

definition matrixio_pcm_prepare ::
  "matrixio_consts \<Rightarrow> driver_state \<Rightarrow> substream_ptr \<Rightarrow> int \<times> effect list \<times> driver_state" where
  "matrixio_pcm_prepare cfg k p =
     (if period_size (runtimes k p) \<noteq> MATRIXIO_PERIOD_FRAMES cfg
      then (- EINVAL,
            [Pcm_err ''Need %u frames/period, got %lu\<newline>''
               [int (MATRIXIO_PERIOD_FRAMES cfg), int (period_size (runtimes k p))]],
            k)
      else (0, [], k\<lparr>position := 0\<rparr>))"

definition matrixio_pcm_pointer :: "driver_state \<Rightarrow> nat" where
  "matrixio_pcm_pointer k = position k"

definition matrixio_pcm_open ::
  "matrixio_consts \<Rightarrow> driver_state \<Rightarrow> substream_ptr \<Rightarrow> int \<Rightarrow>
   int \<times> effect list \<times> driver_state" where
  "matrixio_pcm_open cfg k p irq_ret =
     (let pre = [Set_runtime_hwparams p, Hw_constraint_integer p,
                 Hw_constraint_step p (MATRIXIO_PERIOD_FRAMES cfg),
                 Hw_constraint_single p (MATRIXIO_PERIOD_FRAMES cfg), Set_sync p]
      in if substream k \<noteq> None then (- EBUSY, pre, k)
         else
           let k1 = k\<lparr>substream := Some p, position := 0, flags := unset_bit 0 (flags k)\<rparr>;
               eff = pre @ [Smp_mb, Request_threaded_irq]
           in if irq_ret < 0 then (irq_ret, eff, k1\<lparr>substream := None\<rparr>)
              else (0, eff, k1))"

definition matrixio_pcm_close ::
  "driver_state \<Rightarrow> substream_ptr \<Rightarrow> int \<times> effect list \<times> driver_state" where
  "matrixio_pcm_close k p =
     (0, [Free_irq], k\<lparr>flags := unset_bit 0 (flags k), substream := None\<rparr>)"

definition matrixio_pcm_trigger ::
  "driver_state \<Rightarrow> substream_ptr \<Rightarrow> int \<Rightarrow> int \<times> effect list \<times> driver_state" where
  "matrixio_pcm_trigger k p cmd =
     (if cmd = SNDRV_PCM_TRIGGER_START
        then (0, [Smp_mb], k\<lparr>flags := set_bit 0 (flags k)\<rparr>)
      else if cmd = SNDRV_PCM_TRIGGER_STOP
        then (0, [Pcm_dbg ''stopping'', Pcm_dbg ''stopped''],
              k\<lparr>flags := unset_bit 0 (flags k)\<rparr>)
      else (- EINVAL, [], k))"

subsection \<open>The interrupt handler\<close>

text \<open>The top half. \<open>test_and_set_bit\<close> returns the old bit and sets it.\<close>

definition matrixio_pcm_interrupt :: "driver_state \<Rightarrow> irqreturn \<times> effect list \<times> driver_state" where
  "matrixio_pcm_interrupt k =
     (if substream k = None then (IRQ_NONE, [], k)
      else if \<not> bit (flags k) 0 then (IRQ_HANDLED, [], k)
      else
        (IRQ_WAKE_THREAD,
         (if bit (flags k) 1
          then [Pcm_warn ''Possible overflow, irq thread not keeping up\<newline>'']
          else []),
         k\<lparr>flags := set_bit 1 (flags k)\<rparr>))"

subsection \<open>The interrupt thread\<close>

text \<open>
  The copy loops of the bottom half. \<open>buf\<close> is the word index that the pointer \<open>buf\<close> of
  the source has reached in \<open>dma_area\<close>. A read beyond the fragment buffer or a store
  beyond the area is an access outside the object, which C leaves undefined: the loop
  then yields \<open>None\<close>.
\<close>

function chan_loop ::
  "nat \<Rightarrow> nat \<Rightarrow> u16 list \<Rightarrow> nat \<Rightarrow> nat \<Rightarrow> nat \<times> u16 list \<Rightarrow> (nat \<times> u16 list) option" where
  "chan_loop pf n frag i c (buf, ring) =
     (if c < n then
        (if c * pf + i < length frag \<and> buf < length ring
         then chan_loop pf n frag i (Suc c) (Suc buf, ring[buf := frag ! (c * pf + i)])
         else None)
      else Some (buf, ring))"
  by pat_completeness auto
termination
  by (relation "measure (\<lambda>(pf, n, frag, i, c, s). n - c)") auto

function frame_loop ::
  "nat \<Rightarrow> nat \<Rightarrow> u16 list \<Rightarrow> nat \<Rightarrow> nat \<times> u16 list \<Rightarrow> (nat \<times> u16 list) option" where
  "frame_loop pf n frag i s =
     (if i < pf then
        (case chan_loop pf n frag i 0 s of
           None \<Rightarrow> None
         | Some s' \<Rightarrow> frame_loop pf n frag (Suc i) s')
      else Some s)"
  by pat_completeness auto
termination
  by (relation "measure (\<lambda>(pf, n, frag, i, s). pf - i)") auto

text \<open>
  The section of the thread that runs under \<open>worker_lock\<close>, from the test of the running
  flag to the call of \<open>snd_pcm_period_elapsed\<close>. \<open>p\<close> is the substream that the thread
  read from \<open>ms\<close> on entry.
\<close>

definition matrixio_pcm_thread_locked ::
  "matrixio_consts \<Rightarrow> substream_ptr \<Rightarrow> driver_state \<Rightarrow>
   (irqreturn \<times> effect list \<times> driver_state) option" where
  "matrixio_pcm_thread_locked cfg p k =
     (if \<not> bit (flags k) 0 then Some (IRQ_HANDLED, [], k)
      else case dma_area (runtimes k p) of
        None \<Rightarrow> Some (IRQ_HANDLED, [Pcm_err ''DMA buffer missing!'' []], k)
      | Some ring \<Rightarrow>
         (let rt = runtimes k p; pos = position k in
          case frame_loop (MATRIXIO_PERIOD_FRAMES cfg) (channels rt) (frag_buffer k) 0
                 (pos * channels rt, ring) of
            None \<Rightarrow> None
          | Some (buf, ring') \<Rightarrow>
             (let pos1 = pos + MATRIXIO_PERIOD_FRAMES cfg;
                  pos2 = (if pos1 \<ge> buffer_size rt then pos1 - buffer_size rt else pos1)
              in Some (IRQ_HANDLED, [Period_elapsed p],
                       k\<lparr>position := pos2,
                         runtimes := (runtimes k)(p := rt\<lparr>dma_area := Some ring'\<rparr>)\<rparr>))))"

text \<open>
  The whole thread. \<open>rd\<close> is the outcome of \<open>matrixio_read\<close>: its return value and the
  content it leaves in the fragment buffer. The thread dereferences \<open>ms->substream\<close> on
  entry; with no substream bound that is a null dereference (\<open>None\<close>).
\<close>

definition matrixio_pcm_thread ::
  "matrixio_consts \<Rightarrow> driver_state \<Rightarrow> int \<times> u16 list \<Rightarrow>
   (irqreturn \<times> effect list \<times> driver_state) option" where
  "matrixio_pcm_thread cfg k rd =
     (case substream k of
        None \<Rightarrow> None
      | Some p \<Rightarrow>
         (let rt = runtimes k p;
              e1 = [Matrixio_read (MATRIXIO_MICARRAY_BASE cfg) (period_size rt * channels rt * 2),
                    Smp_mb];
              k1 = k\<lparr>frag_buffer := snd rd, flags := unset_bit 1 (flags k)\<rparr>
          in if fst rd \<noteq> 0
             then Some (IRQ_HANDLED, e1 @ [Pcm_err ''matrixio SPI read failed (%d)\<newline>'' [fst rd]], k1)
             else (case matrixio_pcm_thread_locked cfg p k1 of
                     None \<Rightarrow> None
                   | Some (r, e2, k2) \<Rightarrow> Some (r, e1 @ e2, k2))))"

subsection \<open>Probe and sessions\<close>

text \<open>
  The state that a successful probe leaves: the structure is zeroed, no substream is
  bound, the fragment buffer is allocated with whatever content \<open>frag0\<close>. \<open>rts\<close> are the
  runtimes of the framework.
\<close>

definition matrixio_pcm_platform_probe ::
  "(substream_ptr \<Rightarrow> snd_pcm_runtime) \<Rightarrow> u16 list \<Rightarrow> driver_state" where
  "matrixio_pcm_platform_probe rts frag0 =
     \<lparr>substream = None, flags = 0, position = 0, frag_buffer = frag0, runtimes = rts\<rparr>"

text \<open>
  What can happen to the driver: the framework calls a callback, the device raises an
  interrupt, the thread runs. A session is a sequence of such events; it breaks off
  (\<open>None\<close>) where the thread makes an undefined access.
\<close>

datatype event =
    Open substream_ptr int
  | Close substream_ptr
  | Hw_params substream_ptr snd_pcm_hw_params "int \<times> u16 list option"
  | Hw_free substream_ptr int
  | Prepare substream_ptr
  | Trigger substream_ptr int
  | Pointer
  | Interrupt
  | Thread "int \<times> u16 list"

fun step :: "matrixio_consts \<Rightarrow> driver_state \<Rightarrow> event \<Rightarrow> driver_state option" where
  "step cfg k (Open p irq_ret) = Some (snd (snd (matrixio_pcm_open cfg k p irq_ret)))"
| "step cfg k (Close p) = Some (snd (snd (matrixio_pcm_close k p)))"
| "step cfg k (Hw_params p hp alloc) = Some (snd (snd (matrixio_pcm_hw_params cfg k p hp alloc)))"
| "step cfg k (Hw_free p r) = Some (snd (snd (matrixio_pcm_hw_free k p r)))"
| "step cfg k (Prepare p) = Some (snd (snd (matrixio_pcm_prepare cfg k p)))"
| "step cfg k (Trigger p cmd) = Some (snd (snd (matrixio_pcm_trigger k p cmd)))"
| "step cfg k Pointer = Some k"
| "step cfg k Interrupt = Some (snd (snd (matrixio_pcm_interrupt k)))"
| "step cfg k (Thread rd) = map_option (\<lambda>r. snd (snd r)) (matrixio_pcm_thread cfg k rd)"

fun run :: "matrixio_consts \<Rightarrow> driver_state \<Rightarrow> event list \<Rightarrow> driver_state option" where
  "run cfg k [] = Some k"
| "run cfg k (e # es) = (case step cfg k e of None \<Rightarrow> None | Some k' \<Rightarrow> run cfg k' es)"

text \<open>The events that are a \<open>trigger(START)\<close>.\<close>

fun starts :: "event \<Rightarrow> bool" where
  "starts (Trigger p cmd) = (cmd = SNDRV_PCM_TRIGGER_START)"
| "starts e = False"

subsection \<open>The rate table of the specification\<close>

text \<open>
  The table of section 6 of the specification, written from its rows: rate to
  (decimation, gain bits). It is compared below with what \<open>hw_params\<close> writes.
\<close>

definition spec_rate_table :: "nat \<Rightarrow> (nat \<times> nat) option" where
  "spec_rate_table r =
     (if r = 8000 then Some (374, 1)
      else if r = 12000 then Some (249, 2)
      else if r = 16000 then Some (186, 3)
      else if r = 22050 then Some (135, 5)
      else if r = 24000 then Some (124, 5)
      else if r = 32000 then Some (92, 6)
      else if r = 44100 then Some (67, 7)
      else if r = 48000 then Some (61, 7)
      else if r = 96000 then Some (30, 10)
      else None)"

subsection \<open>A small instance\<close>

text \<open>
  An instance of the constants with periods of two frames and FIR vectors of two taps,
  and a two-channel runtime with a ring of four periods (sixteen words). The theorems
  below are evaluated on it.
\<close>

definition demo_consts :: matrixio_consts where
  "demo_consts =
     \<lparr>MATRIXIO_PERIOD_FRAMES = 2, MATRIXIO_CONF_BASE = 0, MATRIXIO_MICARRAY_BASE = 8192,
      MATRIXIO_FIR_TAP_SIZE = 2,
      FIR_Coeff = [(8000, [1, 2]), (12000, [3, 4]), (16000, [5, 6]), (22050, [7, 8]),
                   (24000, [9, 10]), (32000, [11, 12]), (44100, [13, 14]),
                   (48000, [15, 16]), (96000, [17, 18])]\<rparr>"

definition demo_ring :: "u16 list" where
  "demo_ring = [0, 0, 0, 0, 0, 0, 0, 0, 0, 0, 0, 0, 0, 0, 0, 0]"

definition demo_runtime :: snd_pcm_runtime where
  "demo_runtime =
     \<lparr>dma_area = Some demo_ring, channels = 2, buffer_size = 8, period_size = 2\<rparr>"

definition demo_probed :: driver_state where
  "demo_probed = matrixio_pcm_platform_probe (\<lambda>p. demo_runtime) demo_ring"

definition demo_open :: driver_state where
  "demo_open = snd (snd (matrixio_pcm_open demo_consts demo_probed 1 0))"

definition demo_running :: driver_state where
  "demo_running = snd (snd (matrixio_pcm_trigger demo_open 1 SNDRV_PCM_TRIGGER_START))"

definition demo_hw_params :: snd_pcm_hw_params where
  "demo_hw_params =
     \<lparr>params_format = SNDRV_PCM_FORMAT_S16_LE, params_rate = 48000,
      params_period_size = 2, params_buffer_bytes = 32\<rparr>"

text \<open>A fragment in the layout of the device: channel 0 is 10, 11 and channel 1 is 20, 21.\<close>

definition demo_frag :: "u16 list" where
  "demo_frag = [10, 11, 20, 21]"

section \<open>Properties\<close>

declare chan_loop.simps [simp del] frame_loop.simps [simp del]

lemmas demo_defs =
  demo_consts_def demo_runtime_def demo_probed_def demo_open_def demo_running_def
  demo_hw_params_def demo_frag_def matrixio_pcm_platform_probe_def matrixio_pcm_open_def
  matrixio_pcm_trigger_def SNDRV_PCM_TRIGGER_START_def SNDRV_PCM_TRIGGER_STOP_def

lemmas demo_eval =
  demo_defs demo_ring_def matrixio_pcm_interrupt_def matrixio_pcm_thread_def
  matrixio_pcm_thread_locked_def matrixio_pcm_prepare_def matrixio_pcm_hw_params_def
  matrixio_params_def Let_def bit_simps frame_loop.simps chan_loop.simps

lemma demo_open_fields:
  "substream demo_open = Some 1" "\<not> bit (flags demo_open) 0" "\<not> bit (flags demo_open) (Suc 0)"
  "position demo_open = 0" "runtimes demo_open = (\<lambda>p. demo_runtime)"
  by (simp_all add: demo_defs bit_simps)

lemma demo_running_fields:
  "substream demo_running = Some 1" "bit (flags demo_running) 0"
  "\<not> bit (flags demo_running) (Suc 0)"
  "position demo_running = 0" "runtimes demo_running = (\<lambda>p. demo_runtime)"
  by (simp_all add: demo_defs bit_simps)

subsection \<open>The top half\<close>

text \<open>
  C5. The top half returns \<open>IRQ_NONE\<close> (NotOurs) when no substream is bound. With a
  substream bound and the running flag clear it returns \<open>IRQ_HANDLED\<close> and leaves the
  state, the transfer flag included, as it was. With the running flag set it sets the
  transfer flag and returns \<open>IRQ_WAKE_THREAD\<close>; it logs the overflow warning, once, exactly
  when the transfer flag was already set, and the running flag stays set.
\<close>

theorem interrupt_top_half:
  "(substream k = None \<longrightarrow> matrixio_pcm_interrupt k = (IRQ_NONE, [], k)) \<and>
   (substream k \<noteq> None \<and> \<not> bit (flags k) 0 \<longrightarrow>
      matrixio_pcm_interrupt k = (IRQ_HANDLED, [], k)) \<and>
   (substream k \<noteq> None \<and> bit (flags k) 0 \<longrightarrow>
      matrixio_pcm_interrupt k =
        (IRQ_WAKE_THREAD,
         (if bit (flags k) 1
          then [Pcm_warn ''Possible overflow, irq thread not keeping up\<newline>''] else []),
         k\<lparr>flags := set_bit 1 (flags k)\<rparr>) \<and>
      bit (set_bit 1 (flags k)) 1 \<and> bit (set_bit 1 (flags k)) 0)"
  by (simp add: matrixio_pcm_interrupt_def bit_simps)

text \<open>
  On the small instance: not ours after probe, swallowed after open, and after start
  the first interrupt wakes the thread silently while a second one, arriving before the
  thread has run, wakes it with one warning.
\<close>

theorem interrupt_top_half_witness:
  "matrixio_pcm_interrupt demo_probed = (IRQ_NONE, [], demo_probed) \<and>
   matrixio_pcm_interrupt demo_open = (IRQ_HANDLED, [], demo_open) \<and>
   fst (matrixio_pcm_interrupt demo_running) = IRQ_WAKE_THREAD \<and>
   fst (snd (matrixio_pcm_interrupt demo_running)) = [] \<and>
   fst (matrixio_pcm_interrupt (snd (snd (matrixio_pcm_interrupt demo_running)))) = IRQ_WAKE_THREAD \<and>
   fst (snd (matrixio_pcm_interrupt (snd (snd (matrixio_pcm_interrupt demo_running))))) =
     [Pcm_warn ''Possible overflow, irq thread not keeping up\<newline>'']"
proof -
  have a: "substream demo_probed = None"
    by (simp add: demo_defs)
  let ?k = "demo_running\<lparr>flags := set_bit 1 (flags demo_running)\<rparr>"
  have b: "substream ?k \<noteq> None" "bit (flags ?k) 0" "bit (flags ?k) 1"
    by (simp_all add: demo_running_fields bit_simps)
  from interrupt_top_half [of demo_probed] interrupt_top_half [of demo_open]
    interrupt_top_half [of demo_running] interrupt_top_half [of ?k]
  show ?thesis
    using a b by (simp add: demo_open_fields demo_running_fields)
qed

subsection \<open>Open\<close>

text \<open>
  C8. With a substream bound, \<open>open\<close> returns \<open>-EBUSY\<close> and the state after the call is
  the state before it: the bound substream, the position and the flags are untouched.
\<close>

theorem open_while_bound:
  "substream k \<noteq> None \<Longrightarrow>
   fst (matrixio_pcm_open cfg k p irq_ret) = - EBUSY \<and>
   snd (snd (matrixio_pcm_open cfg k p irq_ret)) = k"
  by (simp add: matrixio_pcm_open_def Let_def)

theorem open_while_bound_witness:
  "substream demo_open \<noteq> None \<and>
   fst (matrixio_pcm_open demo_consts demo_open 2 0) = - EBUSY \<and>
   snd (snd (matrixio_pcm_open demo_consts demo_open 2 0)) = demo_open"
proof -
  have h: "substream demo_open \<noteq> None"
    by (simp add: demo_open_fields)
  from open_while_bound [OF h] show ?thesis
    using h by simp
qed

subsection \<open>Hardware parameters\<close>

lemma params_loop_None: "r \<notin> fst ` set tab \<Longrightarrow> params_loop base tab r = None"
  by (induction tab) auto


lemma matrixio_params_rates:
  "fst ` set matrixio_params = {8000, 12000, 16000, 22050, 24000, 32000, 44100, 48000, 96000}"
  by (simp add: matrixio_params_def)

lemma params_loop_spec:
  "spec_rate_table r = Some (dec, g) \<Longrightarrow>
   params_loop base matrixio_params r =
     Some [Regmap_write (base + 6) dec, Regmap_write (base + 7) g]"
  by (auto simp: spec_rate_table_def matrixio_params_def split: if_splits)

lemma fir_loop_Some:
  "fir_loop base tap tab r = Some e \<Longrightarrow>
   \<exists>co. map_of tab r = Some co \<and> e = [Matrixio_write base tap co]"
  by (induction tab) (auto split: if_splits)


text \<open>
  C9. For a rate outside the rate table, \<open>hw_params\<close> returns \<open>-EINVAL\<close>, makes no call
  at all (no register write, no bus write, no allocation) and leaves the state as it
  was, whatever the format.
\<close>

theorem hw_params_unsupported_rate:
  "params_rate hp \<notin> {8000, 12000, 16000, 22050, 24000, 32000, 44100, 48000, 96000} \<Longrightarrow>
   matrixio_pcm_hw_params cfg k p hp alloc = (- EINVAL, [], k)"
  by (simp add: matrixio_pcm_hw_params_def params_loop_None matrixio_params_rates)

theorem hw_params_unsupported_rate_witness:
  "(11025 :: nat) \<notin> {8000, 12000, 16000, 22050, 24000, 32000, 44100, 48000, 96000} \<and>
   matrixio_pcm_hw_params demo_consts demo_open 1 (demo_hw_params\<lparr>params_rate := 11025\<rparr>)
     (1, Some demo_ring) = (- EINVAL, [], demo_open)"
proof -
  have h: "params_rate (demo_hw_params\<lparr>params_rate := 11025\<rparr>)
             \<notin> {8000, 12000, 16000, 22050, 24000, 32000, 44100, 48000, 96000}"
    by simp
  from hw_params_unsupported_rate [OF h] show ?thesis
    by simp
qed

text \<open>
  C6. A \<open>hw_params\<close> that succeeds for a rate of the specification's table makes exactly
  these calls, in this order: the decimation of the table to \<open>CONF_BASE + 6\<close>, the gain of
  the table to \<open>CONF_BASE + 7\<close>, the upload of the coefficients that \<open>FIR_Coeff\<close> holds for
  the rate, and the allocation of the buffer.
\<close>

theorem hw_params_programs_rate:
  assumes "spec_rate_table (params_rate hp) = Some (dec, g)"
    and "0 \<le> fst (matrixio_pcm_hw_params cfg k p hp alloc)"
  shows "\<exists>co. map_of (FIR_Coeff cfg) (params_rate hp) = Some co \<and>
           fst (snd (matrixio_pcm_hw_params cfg k p hp alloc)) =
             [Regmap_write (MATRIXIO_CONF_BASE cfg + 6) dec,
              Regmap_write (MATRIXIO_CONF_BASE cfg + 7) g,
              Matrixio_write (MATRIXIO_MICARRAY_BASE cfg) (MATRIXIO_FIR_TAP_SIZE cfg) co,
              Alloc_vmalloc_buffer p (params_buffer_bytes hp)]"
proof -
  note pl = params_loop_spec [OF assms(1), of "MATRIXIO_CONF_BASE cfg"]
  from assms(2) have w: "snd_pcm_format_width (params_format hp) = 16"
    by (auto simp: matrixio_pcm_hw_params_def EINVAL_def split: if_splits)
  from assms(2) w pl obtain e2 where
    fl: "fir_loop (MATRIXIO_MICARRAY_BASE cfg) (MATRIXIO_FIR_TAP_SIZE cfg) (FIR_Coeff cfg)
           (params_rate hp) = Some e2"
    by (auto simp: matrixio_pcm_hw_params_def EINVAL_def split: option.splits)
  from fir_loop_Some [OF fl] obtain co where
    co: "map_of (FIR_Coeff cfg) (params_rate hp) = Some co"
      "e2 = [Matrixio_write (MATRIXIO_MICARRAY_BASE cfg) (MATRIXIO_FIR_TAP_SIZE cfg) co]"
    by blast
  show ?thesis
    using w pl fl co by (simp add: matrixio_pcm_hw_params_def)
qed

text \<open>On the small instance, 48000 Hz: 61 and 7, then the 48 kHz coefficients.\<close>

theorem hw_params_programs_rate_witness:
  "spec_rate_table 48000 = Some (61, 7) \<and>
   0 \<le> fst (matrixio_pcm_hw_params demo_consts demo_open 1 demo_hw_params
              (1, Some demo_ring)) \<and>
   fst (snd (matrixio_pcm_hw_params demo_consts demo_open 1 demo_hw_params
              (1, Some demo_ring))) =
     [Regmap_write 6 61, Regmap_write 7 7, Matrixio_write 8192 2 [15, 16],
      Alloc_vmalloc_buffer 1 32]"
proof -
  have a: "spec_rate_table (params_rate demo_hw_params) = Some (61, 7)"
    by (simp add: spec_rate_table_def demo_hw_params_def)
  have b: "0 \<le> fst (matrixio_pcm_hw_params demo_consts demo_open 1 demo_hw_params
                     (1, Some demo_ring))"
    by (simp add: matrixio_pcm_hw_params_def matrixio_params_def demo_hw_params_def
        demo_consts_def)
  from hw_params_programs_rate [OF a b] show ?thesis
    using a b by (simp add: demo_hw_params_def demo_consts_def)
qed





subsection \<open>The copy loops\<close>


lemma chan_loop_result:
  "chan_loop pf n frag i c (buf, ring) = Some (buf', ring') \<Longrightarrow>
     buf' = buf + (n - c) \<and> length ring' = length ring \<and>
     (\<forall>d. d < n - c \<longrightarrow> ring' ! (buf + d) = frag ! ((c + d) * pf + i)) \<and>
     (\<forall>j. j < buf \<or> buf + (n - c) \<le> j \<longrightarrow> ring' ! j = ring ! j)"
proof (induction pf n frag i c "(buf, ring)" arbitrary: buf ring rule: chan_loop.induct)
  case (1 pf n frag i c buf ring)
  show ?case
  proof (cases "c < n")
    case False
    with "1.prems" show ?thesis by (simp add: chan_loop.simps[of pf n frag i c])
  next
    case True
    let ?v = "frag ! (c * pf + i)"
    from True "1.prems" have ok: "c * pf + i < length frag" "buf < length ring"
      by (auto simp: chan_loop.simps[of pf n frag i c] split: if_splits)
    with True "1.prems" have rec: "chan_loop pf n frag i (Suc c) (Suc buf, ring[buf := ?v]) = Some (buf', ring')"
      by (simp add: chan_loop.simps[of pf n frag i c])
    note ih0 = "1.hyps"[OF True conjI[OF ok] rec]
    have ih1: "buf' = Suc buf + (n - Suc c)" and ih2: "length ring' = length ring"
      using ih0 by simp_all
    have ih3: "ring' ! (Suc buf + d) = frag ! ((Suc c + d) * pf + i)" if "d < n - Suc c" for d
      using ih0 that by blast
    have ih4: "ring' ! j = ring[buf := ?v] ! j" if "j < Suc buf \<or> Suc buf + (n - Suc c) \<le> j" for j
      using ih0 that by blast
    have a: "buf' = buf + (n - c)" using ih1 True by simp
    have b: "ring' ! (buf + d) = frag ! ((c + d) * pf + i)" if "d < n - c" for d
    proof (cases d)
      case 0
      then show ?thesis using ih4[of buf] ok by simp
    next
      case (Suc d')
      then show ?thesis using ih3[of d'] that by simp
    qed
    have c: "ring' ! j = ring ! j" if "j < buf \<or> buf + (n - c) \<le> j" for j
    proof -
      from that True have "j < Suc buf \<or> Suc buf + (n - Suc c) \<le> j" and "j \<noteq> buf" by arith+
      then show ?thesis using ih4[of j] by simp
    qed
    show ?thesis using a b c ih2 by blast
  qed
qed


lemma frame_loop_result:
  "frame_loop pf n frag i (buf, ring) = Some (buf', ring') \<Longrightarrow>
     buf' = buf + (pf - i) * n \<and> length ring' = length ring \<and>
     (\<forall>a c. a < pf - i \<and> c < n \<longrightarrow> ring' ! (buf + a * n + c) = frag ! (c * pf + (i + a))) \<and>
     (\<forall>j. j < buf \<or> buf + (pf - i) * n \<le> j \<longrightarrow> ring' ! j = ring ! j)"
proof (induction pf n frag i "(buf, ring)" arbitrary: buf ring rule: frame_loop.induct)
  case (1 pf n frag i buf ring)
  show ?case
  proof (cases "i < pf")
    case False
    with "1.prems" show ?thesis by (simp add: frame_loop.simps[of pf n frag i])
  next
    case True
    with "1.prems" obtain buf1 ring1 where
      ch: "chan_loop pf n frag i 0 (buf, ring) = Some (buf1, ring1)"
      and rec: "frame_loop pf n frag (Suc i) (buf1, ring1) = Some (buf', ring')"
      by (auto simp: frame_loop.simps[of pf n frag i] split: option.splits)
    note c0 = chan_loop_result[OF ch]
    have c1: "buf1 = buf + n" and c2: "length ring1 = length ring"
      using c0 by simp_all
    have c3: "ring1 ! (buf + d) = frag ! (d * pf + i)" if "d < n" for d
      using c0 that by simp
    have c4: "ring1 ! j = ring ! j" if "j < buf \<or> buf + n \<le> j" for j
      using c0 that by auto
    note ih0 = "1.hyps"[OF True ch rec]
    have ih1: "buf' = buf1 + (pf - Suc i) * n" and ih2: "length ring' = length ring1"
      using ih0 by simp_all
    have ih3: "ring' ! (buf1 + a * n + c) = frag ! (c * pf + (Suc i + a))"
      if "a < pf - Suc i" "c < n" for a c
      using ih0 that by blast
    have ih4: "ring' ! j = ring1 ! j" if "j < buf1 \<or> buf1 + (pf - Suc i) * n \<le> j" for j
      using ih0 that by blast
    have sz: "(pf - i) * n = n + (pf - Suc i) * n"
    proof -
      from True have "pf - i = Suc (pf - Suc i)" by arith
      then show ?thesis by simp
    qed
    have a: "buf' = buf + (pf - i) * n" using ih1 c1 sz by simp
    have b: "ring' ! (buf + a * n + c) = frag ! (c * pf + (i + a))" if "a < pf - i" "c < n" for a c
    proof (cases a)
      case 0
      have "ring' ! (buf + c) = ring1 ! (buf + c)"
        using ih4[of "buf + c"] c1 that by simp
      with 0 show ?thesis using c3[OF that(2)] by simp
    next
      case (Suc a')
      with that have "a' < pf - Suc i" by arith
      from ih3[OF this that(2)] have "ring' ! (buf + n + a' * n + c) = frag ! (c * pf + (Suc i + a'))"
        using c1 by simp
      moreover have "buf + a * n + c = buf + n + a' * n + c" using Suc by simp
      moreover have "c * pf + (Suc i + a') = c * pf + (i + a)" using Suc by simp
      ultimately show ?thesis by metis
    qed
    have c: "ring' ! j = ring ! j" if "j < buf \<or> buf + (pf - i) * n \<le> j" for j
    proof -
      from that have out1: "j < buf \<or> buf + n \<le> j" using sz by arith
      from that have "j < buf1 \<or> buf1 + (pf - Suc i) * n \<le> j" using sz c1 by arith
      from ih4[OF this] c4[OF out1] show ?thesis by simp
    qed
    show ?thesis using a b c ih2 c2 by simp
  qed
qed

text \<open>
  The loops complete when the frames they write lie inside the ring and the words they
  read lie inside the fragment buffer.
\<close>

lemma chan_loop_completes:
  "buf + (n - c) \<le> length ring \<Longrightarrow> (\<And>c'. c' < n \<Longrightarrow> c' * pf + i < length frag) \<Longrightarrow>
   \<exists>res. chan_loop pf n frag i c (buf, ring) = Some res"
proof (induction pf n frag i c "(buf, ring)" arbitrary: buf ring rule: chan_loop.induct)
  case (1 pf n frag i c buf ring)
  show ?case
  proof (cases "c < n")
    case False
    then show ?thesis
      by (simp add: chan_loop.simps [of pf n frag i c])
  next
    case True
    with "1.prems" have ok: "c * pf + i < length frag" "buf < length ring"
      by auto
    have "Suc buf + (n - Suc c) \<le> length (ring[buf := frag ! (c * pf + i)])"
      using "1.prems"(1) True by simp
    from "1.hyps" [OF True conjI [OF ok] this "1.prems"(2)] True ok show ?thesis
      by (simp add: chan_loop.simps [of pf n frag i c])
  qed
qed

lemma frame_loop_completes:
  "buf + (pf - i) * n \<le> length ring \<Longrightarrow> n * pf \<le> length frag \<Longrightarrow>
   \<exists>res. frame_loop pf n frag i (buf, ring) = Some res"
proof (induction pf n frag i "(buf, ring)" arbitrary: buf ring rule: frame_loop.induct)
  case (1 pf n frag i buf ring)
  show ?case
  proof (cases "i < pf")
    case False
    then show ?thesis
      by (simp add: frame_loop.simps [of pf n frag i])
  next
    case True
    have sz: "(pf - i) * n = n + (pf - Suc i) * n"
    proof -
      from True have "pf - i = Suc (pf - Suc i)" by arith
      then show ?thesis by simp
    qed
    have rd: "c' * pf + i < length frag" if "c' < n" for c'
    proof -
      from that have "Suc c' * pf \<le> n * pf"
        by (intro mult_le_mono1) simp
      with True "1.prems"(2) show ?thesis
        by simp
    qed
    have "buf + (n - 0) \<le> length ring"
      using "1.prems"(1) sz by simp
    from chan_loop_completes [OF this rd] obtain buf1 ring1 where
      ch: "chan_loop pf n frag i 0 (buf, ring) = Some (buf1, ring1)"
      by fastforce
    from chan_loop_result [OF ch] have "buf1 = buf + n" "length ring1 = length ring"
      by simp_all
    with "1.prems"(1) sz have "buf1 + (pf - Suc i) * n \<le> length ring1"
      by simp
    from "1.hyps" [OF True ch this "1.prems"(2)] True ch show ?thesis
      by (simp add: frame_loop.simps [of pf n frag i])
  qed
qed

subsection \<open>The interrupt thread\<close>

lemma thread_locked_stopped:
  "\<not> bit (flags k) 0 \<Longrightarrow> matrixio_pcm_thread_locked cfg p k = Some (IRQ_HANDLED, [], k)"
  by (simp add: matrixio_pcm_thread_locked_def)

lemma thread_locked_no_area:
  "dma_area (runtimes k p) = None \<Longrightarrow>
   \<exists>effs. matrixio_pcm_thread_locked cfg p k = Some (IRQ_HANDLED, effs, k) \<and>
          Period_elapsed p \<notin> set effs"
  by (simp add: matrixio_pcm_thread_locked_def)

lemma thread_locked_copy:
  assumes "bit (flags k) 0" and "dma_area (runtimes k p) = Some ring"
    and "matrixio_pcm_thread_locked cfg p k = Some res"
  shows "\<exists>buf ring'.
           frame_loop (MATRIXIO_PERIOD_FRAMES cfg) (channels (runtimes k p)) (frag_buffer k) 0
             (position k * channels (runtimes k p), ring) = Some (buf, ring') \<and>
           res = (IRQ_HANDLED, [Period_elapsed p],
                  k\<lparr>position :=
                      (if buffer_size (runtimes k p) \<le> position k + MATRIXIO_PERIOD_FRAMES cfg
                       then position k + MATRIXIO_PERIOD_FRAMES cfg - buffer_size (runtimes k p)
                       else position k + MATRIXIO_PERIOD_FRAMES cfg),
                    runtimes := (runtimes k)(p := (runtimes k p)\<lparr>dma_area := Some ring'\<rparr>)\<rparr>)"
  using assms
  by (auto simp: matrixio_pcm_thread_locked_def Let_def split: option.splits)

lemma thread_read_ok:
  "substream k = Some p \<Longrightarrow>
   matrixio_pcm_thread cfg k (0, frag) =
     (case matrixio_pcm_thread_locked cfg p
             (k\<lparr>frag_buffer := frag, flags := unset_bit 1 (flags k)\<rparr>) of
        None \<Rightarrow> None
      | Some (r, e2, k2) \<Rightarrow>
          Some (r,
                [Matrixio_read (MATRIXIO_MICARRAY_BASE cfg)
                   (period_size (runtimes k p) * channels (runtimes k p) * 2), Smp_mb] @ e2,
                k2))"
  by (simp add: matrixio_pcm_thread_def Let_def)

lemma thread_read_failed:
  "substream k = Some p \<Longrightarrow> ret \<noteq> 0 \<Longrightarrow>
   matrixio_pcm_thread cfg k (ret, frag) =
     Some (IRQ_HANDLED,
           [Matrixio_read (MATRIXIO_MICARRAY_BASE cfg)
              (period_size (runtimes k p) * channels (runtimes k p) * 2), Smp_mb,
            Pcm_err ''matrixio SPI read failed (%d)\<newline>'' [ret]],
           k\<lparr>frag_buffer := frag, flags := unset_bit 1 (flags k)\<rparr>)"
  by (simp add: matrixio_pcm_thread_def Let_def)

text \<open>What one run of the thread that copies a period leaves.\<close>

lemma thread_period:
  assumes s: "substream k = Some p" and f: "bit (flags k) 0"
    and d: "dma_area (runtimes k p) = Some ring"
    and t: "matrixio_pcm_thread cfg k (0, frag) = Some (r, effs, k')"
  shows "\<exists>buf ring'.
           frame_loop (MATRIXIO_PERIOD_FRAMES cfg) (channels (runtimes k p)) frag 0
             (position k * channels (runtimes k p), ring) = Some (buf, ring') \<and>
           r = IRQ_HANDLED \<and>
           effs = [Matrixio_read (MATRIXIO_MICARRAY_BASE cfg)
                     (period_size (runtimes k p) * channels (runtimes k p) * 2),
                   Smp_mb, Period_elapsed p] \<and>
           k' = k\<lparr>frag_buffer := frag, flags := unset_bit 1 (flags k),
                  position :=
                    (if buffer_size (runtimes k p) \<le> position k + MATRIXIO_PERIOD_FRAMES cfg
                     then position k + MATRIXIO_PERIOD_FRAMES cfg - buffer_size (runtimes k p)
                     else position k + MATRIXIO_PERIOD_FRAMES cfg),
                  runtimes := (runtimes k)(p := (runtimes k p)\<lparr>dma_area := Some ring'\<rparr>)\<rparr>"
proof -
  let ?k1 = "k\<lparr>frag_buffer := frag, flags := unset_bit 1 (flags k)\<rparr>"
  from t obtain res where
    l: "matrixio_pcm_thread_locked cfg p ?k1 = Some res"
    by (auto simp: thread_read_ok [OF s] split: option.splits)
  have f1: "bit (flags ?k1) 0" using f by (simp add: bit_simps)
  have d1: "dma_area (runtimes ?k1 p) = Some ring" using d by simp
  from thread_locked_copy [OF f1 d1 l] obtain buf ring' where
    fl: "frame_loop (MATRIXIO_PERIOD_FRAMES cfg) (channels (runtimes k p)) frag 0
           (position k * channels (runtimes k p), ring) = Some (buf, ring')"
    and res: "res = (IRQ_HANDLED, [Period_elapsed p],
                ?k1\<lparr>position :=
                      (if buffer_size (runtimes k p) \<le> position k + MATRIXIO_PERIOD_FRAMES cfg
                       then position k + MATRIXIO_PERIOD_FRAMES cfg - buffer_size (runtimes k p)
                       else position k + MATRIXIO_PERIOD_FRAMES cfg),
                    runtimes := (runtimes k)(p := (runtimes k p)\<lparr>dma_area := Some ring'\<rparr>)\<rparr>)"
    by auto
  from t l res have "r = IRQ_HANDLED"
    and "effs = [Matrixio_read (MATRIXIO_MICARRAY_BASE cfg)
                     (period_size (runtimes k p) * channels (runtimes k p) * 2),
                   Smp_mb, Period_elapsed p]"
    and "k' = ?k1\<lparr>position :=
                      (if buffer_size (runtimes k p) \<le> position k + MATRIXIO_PERIOD_FRAMES cfg
                       then position k + MATRIXIO_PERIOD_FRAMES cfg - buffer_size (runtimes k p)
                       else position k + MATRIXIO_PERIOD_FRAMES cfg),
                    runtimes := (runtimes k)(p := (runtimes k p)\<lparr>dma_area := Some ring'\<rparr>)\<rparr>"
    by (simp_all add: thread_read_ok [OF s])
  with fl show ?thesis by simp
qed

text \<open>The thread completes when the period fits the ring and the fragment buffer.\<close>

lemma thread_completes:
  assumes "substream k = Some p" and "dma_area (runtimes k p) = Some ring"
    and "(position k + MATRIXIO_PERIOD_FRAMES cfg) * channels (runtimes k p) \<le> length ring"
    and "channels (runtimes k p) * MATRIXIO_PERIOD_FRAMES cfg \<le> length frag"
  shows "\<exists>res. matrixio_pcm_thread cfg k (ret, frag) = Some res"
proof -
  have "position k * channels (runtimes k p) +
          (MATRIXIO_PERIOD_FRAMES cfg - 0) * channels (runtimes k p) \<le> length ring"
    using assms(3) by (simp add: add_mult_distrib)
  from frame_loop_completes [OF this assms(4)] obtain res where
    "frame_loop (MATRIXIO_PERIOD_FRAMES cfg) (channels (runtimes k p)) frag 0
       (position k * channels (runtimes k p), ring) = Some res"
    by blast
  with assms(1,2) show ?thesis
    by (cases res) (simp add: matrixio_pcm_thread_def matrixio_pcm_thread_locked_def Let_def)
qed

text \<open>
  C2. Let the thread run with the running flag set, a ring present, and a bus read that
  succeeds and leaves \<open>frag\<close> in the fragment buffer, and let it complete. Then it has
  notified the framework of one period, and the ring holds at frame \<open>P + i\<close>, channel
  \<open>c\<close>, the word \<open>frag[c * PERIOD_FRAMES + i]\<close>, for every \<open>i\<close> below \<open>PERIOD_FRAMES\<close> and
  every \<open>c\<close> below the channel count, where \<open>P\<close> is the position on entry. The ring keeps
  its length, and every word outside these \<open>PERIOD_FRAMES\<close> frames is as before. This
  holds for every channel count, 1 to 8 included.
\<close>

theorem thread_deinterleaves:
  assumes "substream k = Some p" and "bit (flags k) 0"
    and "dma_area (runtimes k p) = Some ring"
    and "matrixio_pcm_thread cfg k (0, frag) = Some (r, effs, k')"
  shows "\<exists>ring'. dma_area (runtimes k' p) = Some ring' \<and> length ring' = length ring \<and>
           Period_elapsed p \<in> set effs \<and>
           (\<forall>i c. i < MATRIXIO_PERIOD_FRAMES cfg \<and> c < channels (runtimes k p) \<longrightarrow>
              ring' ! ((position k + i) * channels (runtimes k p) + c) =
                frag ! (c * MATRIXIO_PERIOD_FRAMES cfg + i)) \<and>
           (\<forall>j. j < position k * channels (runtimes k p) \<or>
                (position k + MATRIXIO_PERIOD_FRAMES cfg) * channels (runtimes k p) \<le> j \<longrightarrow>
              ring' ! j = ring ! j)"
proof -
  let ?pf = "MATRIXIO_PERIOD_FRAMES cfg" and ?n = "channels (runtimes k p)"
  from thread_period [OF assms] obtain buf ring' where
    fl: "frame_loop ?pf ?n frag 0 (position k * ?n, ring) = Some (buf, ring')"
    and e: "effs = [Matrixio_read (MATRIXIO_MICARRAY_BASE cfg)
                     (period_size (runtimes k p) * ?n * 2), Smp_mb, Period_elapsed p]"
    and k': "dma_area (runtimes k' p) = Some ring'"
    by auto
  note fr = frame_loop_result [OF fl]
  have len: "length ring' = length ring"
    using fr by simp
  have inside: "ring' ! ((position k + i) * ?n + c) = frag ! (c * ?pf + i)"
    if "i < ?pf" "c < ?n" for i c
  proof -
    from fr that have "ring' ! (position k * ?n + i * ?n + c) = frag ! (c * ?pf + (0 + i))"
      by simp
    then show ?thesis
      by (simp add: add_mult_distrib)
  qed
  have outside: "ring' ! j = ring ! j"
    if "j < position k * ?n \<or> (position k + ?pf) * ?n \<le> j" for j
  proof -
    from that have "j < position k * ?n \<or> position k * ?n + (?pf - 0) * ?n \<le> j"
      by (simp add: add_mult_distrib)
    with fr show ?thesis
      by blast
  qed
  show ?thesis
    using k' len e inside outside by auto
qed

text \<open>
  One period on the small instance: the fragment 10, 11 (channel 0), 20, 21 (channel 1)
  lands in the ring as 10, 20, 11, 21, and the words behind it stay 0.
\<close>

theorem thread_deinterleaves_witness:
  "substream demo_running = Some 1 \<and> bit (flags demo_running) 0 \<and>
   dma_area (runtimes demo_running 1) = Some demo_ring \<and>
   (\<exists>r effs k' ring'.
      matrixio_pcm_thread demo_consts demo_running (0, demo_frag) = Some (r, effs, k') \<and>
      dma_area (runtimes k' 1) = Some ring' \<and> length ring' = 16 \<and>
      ring' ! 0 = 10 \<and> ring' ! 1 = 20 \<and> ring' ! 2 = 11 \<and> ring' ! 3 = 21 \<and> ring' ! 4 = 0)"
proof -
  have a: "substream demo_running = Some 1" and b: "bit (flags demo_running) 0"
    and c: "dma_area (runtimes demo_running 1) = Some demo_ring"
    by (simp_all add: demo_running_fields demo_runtime_def)
  have "\<exists>r effs k'. matrixio_pcm_thread demo_consts demo_running (0, demo_frag) = Some (r, effs, k')"
    by (simp add: demo_eval)
  then obtain r effs k' where
    t: "matrixio_pcm_thread demo_consts demo_running (0, demo_frag) = Some (r, effs, k')"
    by blast
  from thread_deinterleaves [OF a b c t] obtain ring' where
    d: "dma_area (runtimes k' 1) = Some ring'" and l: "length ring' = length demo_ring"
    and i: "\<And>i c. i < 2 \<Longrightarrow> c < 2 \<Longrightarrow> ring' ! ((0 + i) * 2 + c) = demo_frag ! (c * 2 + i)"
    and o: "\<And>j. (0 + 2) * 2 \<le> j \<Longrightarrow> ring' ! j = demo_ring ! j"
    by (auto simp: demo_running_fields demo_runtime_def demo_consts_def)
  from i [of 0 0] i [of 0 1] i [of 1 0] i [of 1 1] o [of 4] l
  have "length ring' = 16 \<and> ring' ! 0 = 10 \<and> ring' ! 1 = 20 \<and> ring' ! 2 = 11 \<and>
        ring' ! 3 = 21 \<and> ring' ! 4 = 0"
    by (simp add: demo_frag_def demo_ring_def)
  with a b c t d show ?thesis
    by blast
qed

lemma thread_frame:
  assumes "matrixio_pcm_thread cfg k rd = Some (r, effs, k')" and "substream k = Some p"
  shows "flags k' = unset_bit 1 (flags k)" and "substream k' = substream k"
    and "buffer_size (runtimes k' q) = buffer_size (runtimes k q)"
    and "(dma_area (runtimes k' p) = None) = (dma_area (runtimes k p) = None)"
    and "position k' =
           (if fst rd = 0 \<and> bit (flags k) 0 \<and> dma_area (runtimes k p) \<noteq> None
            then (if buffer_size (runtimes k p) \<le> position k + MATRIXIO_PERIOD_FRAMES cfg
                  then position k + MATRIXIO_PERIOD_FRAMES cfg - buffer_size (runtimes k p)
                  else position k + MATRIXIO_PERIOD_FRAMES cfg)
            else position k)"
  using assms
  by (auto simp: matrixio_pcm_thread_def matrixio_pcm_thread_locked_def Let_def bit_simps
      split: option.splits if_splits)

lemma thread_stopped:
  assumes "substream k = Some p" and "\<not> bit (flags k) 0"
  shows "\<exists>effs. matrixio_pcm_thread cfg k rd =
            Some (IRQ_HANDLED, effs, k\<lparr>frag_buffer := snd rd, flags := unset_bit 1 (flags k)\<rparr>) \<and>
          (\<forall>s. Period_elapsed s \<notin> set effs)"
  using assms
  by (simp add: matrixio_pcm_thread_def matrixio_pcm_thread_locked_def Let_def bit_simps)

text \<open>
  C10. When the bus read fails, the thread logs the error after the barrier and returns
  \<open>IRQ_HANDLED\<close>. The transfer flag is clear and the running flag is what it was; the
  runtimes (the ring among them), the position and the bound substream are unchanged, and
  no period is announced. With the running flag set, the next interrupt finds the
  transfer flag clear: it wakes the thread and logs nothing.
\<close>

theorem thread_bus_error:
  assumes "substream k = Some p" and "fst rd \<noteq> 0"
  shows "\<exists>k'. matrixio_pcm_thread cfg k rd =
            Some (IRQ_HANDLED,
                  [Matrixio_read (MATRIXIO_MICARRAY_BASE cfg)
                     (period_size (runtimes k p) * channels (runtimes k p) * 2),
                   Smp_mb, Pcm_err ''matrixio SPI read failed (%d)\<newline>'' [fst rd]],
                  k') \<and>
          \<not> bit (flags k') 1 \<and> bit (flags k') 0 = bit (flags k) 0 \<and>
          runtimes k' = runtimes k \<and> position k' = position k \<and>
          substream k' = substream k \<and>
          (bit (flags k) 0 \<longrightarrow>
             matrixio_pcm_interrupt k' =
               (IRQ_WAKE_THREAD, [], k'\<lparr>flags := set_bit 1 (flags k')\<rparr>))"
proof -
  let ?k' = "k\<lparr>frag_buffer := snd rd, flags := unset_bit 1 (flags k)\<rparr>"
  have "matrixio_pcm_thread cfg k rd =
          Some (IRQ_HANDLED,
                [Matrixio_read (MATRIXIO_MICARRAY_BASE cfg)
                   (period_size (runtimes k p) * channels (runtimes k p) * 2),
                 Smp_mb, Pcm_err ''matrixio SPI read failed (%d)\<newline>'' [fst rd]],
                ?k')"
    using thread_read_failed [OF assms(1), of "fst rd" cfg "snd rd"] assms(2) by simp
  moreover have "\<not> bit (flags ?k') 1" "bit (flags ?k') 0 = bit (flags k) 0"
    by (simp_all add: bit_simps)
  moreover have "bit (flags k) 0 \<longrightarrow>
      matrixio_pcm_interrupt ?k' = (IRQ_WAKE_THREAD, [], ?k'\<lparr>flags := set_bit 1 (flags ?k')\<rparr>)"
    using assms(1) by (simp add: matrixio_pcm_interrupt_def bit_simps)
  ultimately show ?thesis
    by (intro exI [of _ ?k']) simp
qed

theorem thread_bus_error_witness:
  "substream demo_running = Some 1 \<and> fst (- 5 :: int, demo_frag) \<noteq> 0 \<and>
   (\<exists>k'. matrixio_pcm_thread demo_consts demo_running (- 5, demo_frag) =
            Some (IRQ_HANDLED,
                  [Matrixio_read 8192 8, Smp_mb, Pcm_err ''matrixio SPI read failed (%d)\<newline>'' [- 5]],
                  k') \<and>
          \<not> bit (flags k') 1 \<and> bit (flags k') 0 \<and>
          runtimes k' = runtimes demo_running \<and> position k' = 0 \<and>
          fst (matrixio_pcm_interrupt k') = IRQ_WAKE_THREAD \<and>
          fst (snd (matrixio_pcm_interrupt k')) = [])"
proof -
  have a: "substream demo_running = Some 1"
    by (simp add: demo_running_fields)
  have b: "fst (- 5 :: int, demo_frag) \<noteq> 0"
    by simp
  from thread_bus_error [OF a b, of demo_consts] obtain k' where
    "matrixio_pcm_thread demo_consts demo_running (- 5, demo_frag) =
       Some (IRQ_HANDLED,
             [Matrixio_read 8192 8, Smp_mb, Pcm_err ''matrixio SPI read failed (%d)\<newline>'' [- 5]],
             k')"
    "\<not> bit (flags k') 1" "bit (flags k') 0" "runtimes k' = runtimes demo_running"
    "position k' = 0"
    "matrixio_pcm_interrupt k' = (IRQ_WAKE_THREAD, [], k'\<lparr>flags := set_bit 1 (flags k')\<rparr>)"
    by (auto simp: demo_running_fields demo_runtime_def demo_consts_def)
  then show ?thesis
    using a b by auto
qed

subsection \<open>Sessions\<close>

lemma step_stopped:
  assumes "\<not> starts e" and "\<not> bit (flags k) 0" and "step cfg k e = Some k'"
  shows "\<not> bit (flags k') 0"
proof (cases e)
  case (Thread rd)
  with assms(3) obtain r effs where
    t: "matrixio_pcm_thread cfg k rd = Some (r, effs, k')"
    by auto
  then obtain p where "substream k = Some p"
    by (auto simp: matrixio_pcm_thread_def split: option.splits)
  from thread_frame(1) [OF t this] assms(2) show ?thesis
    by (simp add: bit_simps)
next
  case (Trigger p cmd)
  with assms show ?thesis
    by (auto simp: matrixio_pcm_trigger_def bit_simps split: if_splits)
qed (use assms in \<open>auto simp: matrixio_pcm_open_def matrixio_pcm_close_def
      matrixio_pcm_hw_params_def matrixio_pcm_hw_free_def matrixio_pcm_prepare_def
      matrixio_pcm_interrupt_def Let_def bit_simps split: if_splits option.splits\<close>)

lemma run_stopped:
  "\<not> list_ex starts evs \<Longrightarrow> \<not> bit (flags k) 0 \<Longrightarrow> run cfg k evs = Some k' \<Longrightarrow>
   \<not> bit (flags k') 0"
proof (induction evs arbitrary: k)
  case Nil
  then show ?case by simp
next
  case (Cons e evs)
  from Cons.prems(3) obtain k1 where
    s: "step cfg k e = Some k1" and r: "run cfg k1 evs = Some k'"
    by (auto split: option.splits)
  from Cons.prems(1) have ne: "\<not> starts e" and nes: "\<not> list_ex starts evs"
    by simp_all
  from step_stopped [OF ne Cons.prems(2) s] have "\<not> bit (flags k1) 0" .
  from Cons.IH [OF nes this r] show ?case .
qed

text \<open>
  C3. \<open>trigger(STOP)\<close> returns 0 with the running flag clear, and the flag stays clear
  through every sequence of events without a \<open>trigger(START)\<close>. In any state reached
  this way, the locked section of the thread returns at once and leaves the whole state
  as it is; this covers the thread that had read the bus before the stop and takes the
  lock after it. A thread that runs from its beginning in such a state returns
  \<open>IRQ_HANDLED\<close>, leaves the runtimes (the ring among them) and the position unchanged,
  and announces no period.
\<close>

theorem stop_fences_thread:
  assumes "\<not> list_ex starts evs"
    and "run cfg (snd (snd (matrixio_pcm_trigger k p SNDRV_PCM_TRIGGER_STOP))) evs = Some k1"
  shows "fst (matrixio_pcm_trigger k p SNDRV_PCM_TRIGGER_STOP) = 0 \<and>
         \<not> bit (flags k1) 0 \<and>
         matrixio_pcm_thread_locked cfg q k1 = Some (IRQ_HANDLED, [], k1) \<and>
         (substream k1 \<noteq> None \<longrightarrow>
            (\<exists>effs k2. matrixio_pcm_thread cfg k1 rd = Some (IRQ_HANDLED, effs, k2) \<and>
               runtimes k2 = runtimes k1 \<and> position k2 = position k1 \<and>
               \<not> bit (flags k2) 0 \<and> (\<forall>s. Period_elapsed s \<notin> set effs)))"
proof -
  let ?k0 = "snd (snd (matrixio_pcm_trigger k p SNDRV_PCM_TRIGGER_STOP))"
  have ret: "fst (matrixio_pcm_trigger k p SNDRV_PCM_TRIGGER_STOP) = 0"
    by (simp add: matrixio_pcm_trigger_def SNDRV_PCM_TRIGGER_STOP_def
        SNDRV_PCM_TRIGGER_START_def)
  have "\<not> bit (flags ?k0) 0"
    by (simp add: matrixio_pcm_trigger_def SNDRV_PCM_TRIGGER_STOP_def
        SNDRV_PCM_TRIGGER_START_def bit_simps)
  from run_stopped [OF assms(1) this assms(2)] have st: "\<not> bit (flags k1) 0" .
  have th: "\<exists>effs k2. matrixio_pcm_thread cfg k1 rd = Some (IRQ_HANDLED, effs, k2) \<and>
               runtimes k2 = runtimes k1 \<and> position k2 = position k1 \<and>
               \<not> bit (flags k2) 0 \<and> (\<forall>s. Period_elapsed s \<notin> set effs)"
    if "substream k1 \<noteq> None"
  proof -
    from that obtain s where s: "substream k1 = Some s"
      by auto
    from thread_stopped [OF s st, of cfg rd] obtain effs where
      "matrixio_pcm_thread cfg k1 rd =
         Some (IRQ_HANDLED, effs, k1\<lparr>frag_buffer := snd rd, flags := unset_bit 1 (flags k1)\<rparr>)"
      "\<forall>s. Period_elapsed s \<notin> set effs"
      by blast
    with st show ?thesis
      by (simp add: bit_simps)
  qed
  from ret st thread_locked_stopped [OF st] th show ?thesis
    by blast
qed

theorem stop_fences_thread_witness:
  "\<not> list_ex starts [Interrupt, Thread (0, demo_frag), Pointer, Prepare 1] \<and>
   (\<exists>k1. run demo_consts (snd (snd (matrixio_pcm_trigger demo_running 1 SNDRV_PCM_TRIGGER_STOP)))
            [Interrupt, Thread (0, demo_frag), Pointer, Prepare 1] = Some k1 \<and>
          \<not> bit (flags k1) 0 \<and>
          matrixio_pcm_thread_locked demo_consts 1 k1 = Some (IRQ_HANDLED, [], k1) \<and>
          (\<exists>effs k2. matrixio_pcm_thread demo_consts k1 (0, demo_frag) =
                        Some (IRQ_HANDLED, effs, k2) \<and>
             dma_area (runtimes k2 1) = Some demo_ring \<and> position k2 = 0))"
proof -
  let ?evs = "[Interrupt, Thread (0, demo_frag), Pointer, Prepare 1]"
  let ?k0 = "snd (snd (matrixio_pcm_trigger demo_running 1 SNDRV_PCM_TRIGGER_STOP))"
  have a: "\<not> list_ex starts ?evs"
    by simp
  have "\<exists>k1. run demo_consts ?k0 ?evs = Some k1 \<and> substream k1 = Some 1 \<and>
          position k1 = 0 \<and> runtimes k1 = (\<lambda>p. demo_runtime)"
    by (simp add: demo_defs matrixio_pcm_interrupt_def matrixio_pcm_thread_def
        matrixio_pcm_thread_locked_def matrixio_pcm_prepare_def Let_def bit_simps)
  then obtain k1 where b: "run demo_consts ?k0 ?evs = Some k1"
    and c: "substream k1 = Some 1" "position k1 = 0" "runtimes k1 = (\<lambda>p. demo_runtime)"
    by blast
  from stop_fences_thread [OF a b, of 1 "(0, demo_frag)"] c
  have "\<not> bit (flags k1) 0 \<and>
        matrixio_pcm_thread_locked demo_consts 1 k1 = Some (IRQ_HANDLED, [], k1) \<and>
        (\<exists>effs k2. matrixio_pcm_thread demo_consts k1 (0, demo_frag) =
                      Some (IRQ_HANDLED, effs, k2) \<and>
           dma_area (runtimes k2 1) = Some demo_ring \<and> position k2 = 0)"
    by (auto simp: demo_runtime_def)
  with a b show ?thesis
    by blast
qed

lemma step_buffer_size:
  assumes "step cfg k e = Some k'"
  shows "buffer_size (runtimes k' q) = buffer_size (runtimes k q)"
proof (cases e)
  case (Thread rd)
  with assms obtain r effs where
    t: "matrixio_pcm_thread cfg k rd = Some (r, effs, k')"
    by auto
  then obtain p where "substream k = Some p"
    by (auto simp: matrixio_pcm_thread_def split: option.splits)
  from thread_frame(3) [OF t this] show ?thesis .
qed (use assms in \<open>auto simp: matrixio_pcm_open_def matrixio_pcm_close_def
      matrixio_pcm_hw_params_def matrixio_pcm_hw_free_def matrixio_pcm_prepare_def
      matrixio_pcm_trigger_def matrixio_pcm_interrupt_def Let_def
      split: if_splits option.splits\<close>)

lemma wrap_less:
  fixes pos pf bf :: nat
  assumes "pos < bf" and "pf \<le> bf"
  shows "(if bf \<le> pos + pf then pos + pf - bf else pos + pf) < bf"
  using assms by auto

lemma step_position:
  assumes g: "\<And>q. 0 < buffer_size (runtimes k q) \<and>
                   MATRIXIO_PERIOD_FRAMES cfg \<le> buffer_size (runtimes k q)"
    and i: "\<And>p. substream k = Some p \<Longrightarrow> position k < buffer_size (runtimes k p)"
    and s: "step cfg k e = Some k'"
    and b: "substream k' = Some p"
  shows "position k' < buffer_size (runtimes k' p)"
proof (cases e)
  case (Thread rd)
  with s obtain r effs where
    t: "matrixio_pcm_thread cfg k rd = Some (r, effs, k')"
    by auto
  then obtain p0 where p0: "substream k = Some p0"
    by (auto simp: matrixio_pcm_thread_def split: option.splits)
  from thread_frame(2) [OF t p0] b p0 have pp: "p0 = p"
    by simp
  note fr = thread_frame(3,5) [OF t p0]
  from i [OF p0] g [of p0] wrap_less [of "position k" "buffer_size (runtimes k p0)"
      "MATRIXIO_PERIOD_FRAMES cfg"]
  show ?thesis
    unfolding fr pp [symmetric] by (simp split: if_splits)
next
  case (Open p1 irq_ret)
  with s b i g [of p] show ?thesis
    by (auto simp: matrixio_pcm_open_def Let_def split: if_splits)
next
  case (Prepare p1)
  with s b i g [of p] show ?thesis
    by (auto simp: matrixio_pcm_prepare_def split: if_splits)
next
  case (Hw_params p1 hp alloc)
  with s b i [of p] show ?thesis
    by (auto simp: matrixio_pcm_hw_params_def split: if_splits option.splits)
qed (use s b i [of p] in \<open>auto simp: matrixio_pcm_close_def matrixio_pcm_hw_free_def
      matrixio_pcm_trigger_def matrixio_pcm_interrupt_def split: if_splits\<close>)

lemma run_position:
  assumes "\<And>q. 0 < buffer_size (runtimes k q) \<and>
                 MATRIXIO_PERIOD_FRAMES cfg \<le> buffer_size (runtimes k q)"
    and "\<And>p. substream k = Some p \<Longrightarrow> position k < buffer_size (runtimes k p)"
    and "run cfg k evs = Some k'"
  shows "(\<forall>p. substream k' = Some p \<longrightarrow> position k' < buffer_size (runtimes k' p)) \<and>
         (\<forall>q. buffer_size (runtimes k' q) = buffer_size (runtimes k q))"
  using assms
proof (induction evs arbitrary: k)
  case Nil
  then show ?case by simp
next
  case (Cons e evs)
  from Cons.prems(3) obtain k1 where
    s: "step cfg k e = Some k1" and r: "run cfg k1 evs = Some k'"
    by (auto split: option.splits)
  note bs = step_buffer_size [OF s]
  have g1: "0 < buffer_size (runtimes k1 q) \<and>
            MATRIXIO_PERIOD_FRAMES cfg \<le> buffer_size (runtimes k1 q)" for q
    using Cons.prems(1) [of q] by (simp add: bs)
  have i1: "position k1 < buffer_size (runtimes k1 p)" if "substream k1 = Some p" for p
    using step_position [OF Cons.prems(1) Cons.prems(2) s that] .
  from Cons.IH [OF g1 i1 r]
  have a: "\<forall>p. substream k' = Some p \<longrightarrow> position k' < buffer_size (runtimes k' p)"
    and b: "\<forall>q. buffer_size (runtimes k' q) = buffer_size (runtimes k1 q)"
    by blast+
  from b bs have "\<forall>q. buffer_size (runtimes k' q) = buffer_size (runtimes k q)"
    by simp
  with a show ?case
    by blast
qed

text \<open>
  C4. Take runtimes whose buffer sizes are positive multiples of \<open>PERIOD_FRAMES\<close>, and
  take any sequence of events from the state that probe leaves: callbacks (open and
  prepare among them), interrupts, and runs of the thread. In every state reached with
  a substream bound, the position that \<open>pointer\<close> returns is below the buffer size of that
  substream (and, being a natural number, not below 0); the buffer size itself is never
  changed by the driver.
\<close>

theorem position_in_range:
  assumes "\<forall>q. 0 < buffer_size (rts q) \<and> MATRIXIO_PERIOD_FRAMES cfg dvd buffer_size (rts q)"
    and "run cfg (matrixio_pcm_platform_probe rts frag0) evs = Some k"
    and "substream k = Some p"
  shows "matrixio_pcm_pointer k < buffer_size (runtimes k p) \<and>
         buffer_size (runtimes k p) = buffer_size (rts p)"
proof -
  let ?k0 = "matrixio_pcm_platform_probe rts frag0"
  have g: "0 < buffer_size (runtimes ?k0 q) \<and>
           MATRIXIO_PERIOD_FRAMES cfg \<le> buffer_size (runtimes ?k0 q)" for q
    using assms(1) by (auto simp: matrixio_pcm_platform_probe_def intro: dvd_imp_le)
  have i: "position ?k0 < buffer_size (runtimes ?k0 q)" if "substream ?k0 = Some q" for q
    using that by (simp add: matrixio_pcm_platform_probe_def)
  from run_position [OF g i assms(2)] assms(3)
  have a: "position k < buffer_size (runtimes k p)"
    and b: "buffer_size (runtimes k p) = buffer_size (runtimes ?k0 p)"
    by blast+
  from b have "buffer_size (runtimes k p) = buffer_size (rts p)"
    by (simp add: matrixio_pcm_platform_probe_def)
  with a show ?thesis
    by (simp add: matrixio_pcm_pointer_def)
qed

text \<open>
  A session on the small instance: open, configure, prepare, start, then five periods.
  The position wraps after the fourth and ends at 2, below the buffer size 8.
\<close>

theorem position_in_range_witness:
  "(\<forall>q. 0 < buffer_size demo_runtime \<and>
        MATRIXIO_PERIOD_FRAMES demo_consts dvd buffer_size demo_runtime) \<and>
   (\<exists>k. run demo_consts (matrixio_pcm_platform_probe (\<lambda>p. demo_runtime) demo_ring)
           [Open 1 0, Hw_params 1 demo_hw_params (1, Some demo_ring), Prepare 1,
            Trigger 1 SNDRV_PCM_TRIGGER_START,
            Interrupt, Thread (0, demo_frag), Interrupt, Thread (0, demo_frag),
            Interrupt, Thread (0, demo_frag), Interrupt, Thread (0, demo_frag),
            Interrupt, Thread (0, demo_frag)] = Some k \<and>
         substream k = Some 1 \<and> matrixio_pcm_pointer k = 2 \<and>
         matrixio_pcm_pointer k < buffer_size (runtimes k 1) \<and>
         buffer_size (runtimes k 1) = 8)"
proof -
  let ?evs = "[Open 1 0, Hw_params 1 demo_hw_params (1, Some demo_ring), Prepare 1,
            Trigger 1 SNDRV_PCM_TRIGGER_START,
            Interrupt, Thread (0, demo_frag), Interrupt, Thread (0, demo_frag),
            Interrupt, Thread (0, demo_frag), Interrupt, Thread (0, demo_frag),
            Interrupt, Thread (0, demo_frag)]"
  have g: "\<forall>q. 0 < buffer_size ((\<lambda>p. demo_runtime) q) \<and>
             MATRIXIO_PERIOD_FRAMES demo_consts dvd buffer_size ((\<lambda>p. demo_runtime) q)"
    by (simp add: demo_runtime_def demo_consts_def)
  have "\<exists>k. run demo_consts (matrixio_pcm_platform_probe (\<lambda>p. demo_runtime) demo_ring) ?evs
               = Some k \<and> substream k = Some 1 \<and> matrixio_pcm_pointer k = 2"
    by (simp add: demo_eval matrixio_pcm_pointer_def)
  then obtain k where
    r: "run demo_consts (matrixio_pcm_platform_probe (\<lambda>p. demo_runtime) demo_ring) ?evs = Some k"
    and s: "substream k = Some 1" and p: "matrixio_pcm_pointer k = 2"
    by blast
  from position_in_range [OF g r s]
  have "matrixio_pcm_pointer k < buffer_size (runtimes k 1) \<and> buffer_size (runtimes k 1) = 8"
    by (simp add: demo_runtime_def)
  with g r s p show ?thesis
    by auto
qed

lemma wrap_cong:
  fixes pos pf bf :: nat
  shows "(if bf \<le> pos + pf then pos + pf - bf else pos + pf) mod bf = (pos + pf) mod bf"
  by (simp add: le_mod_geq)

lemma run_periods:
  assumes "substream k = Some p" and "bit (flags k) 0"
    and "dma_area (runtimes k p) \<noteq> None"
    and "run cfg k (map (\<lambda>f. Thread (0, f)) frags) = Some k'"
  shows "position k' mod buffer_size (runtimes k p) =
           (position k + length frags * MATRIXIO_PERIOD_FRAMES cfg) mod buffer_size (runtimes k p) \<and>
         (position k < buffer_size (runtimes k p) \<and>
          MATRIXIO_PERIOD_FRAMES cfg \<le> buffer_size (runtimes k p) \<longrightarrow>
            position k' < buffer_size (runtimes k p))"
  using assms
proof (induction frags arbitrary: k)
  case Nil
  then show ?case by simp
next
  case (Cons f frags)
  let ?pf = "MATRIXIO_PERIOD_FRAMES cfg" and ?bf = "buffer_size (runtimes k p)"
  from Cons.prems(4) obtain r effs k1 where
    t: "matrixio_pcm_thread cfg k (0, f) = Some (r, effs, k1)"
    and rest: "run cfg k1 (map (\<lambda>f. Thread (0, f)) frags) = Some k'"
    by (auto split: option.splits)
  note fr = thread_frame [OF t Cons.prems(1)]
  have s1: "substream k1 = Some p"
    using fr(2) Cons.prems(1) by simp
  have f1: "bit (flags k1) 0"
    using fr(1) Cons.prems(2) by (simp add: bit_simps)
  have d1: "dma_area (runtimes k1 p) \<noteq> None"
    using fr(4) Cons.prems(3) by simp
  have b1: "buffer_size (runtimes k1 p) = ?bf"
    using fr(3) .
  have p1: "position k1 = (if ?bf \<le> position k + ?pf then position k + ?pf - ?bf
                            else position k + ?pf)"
    using fr(5) Cons.prems(2,3) by simp
  have c1: "position k1 mod ?bf = (position k + ?pf) mod ?bf"
    unfolding p1 by (rule wrap_cong)
  note ih = Cons.IH [OF s1 f1 d1 rest, unfolded b1]
  from ih have "position k' mod ?bf = (position k1 + length frags * ?pf) mod ?bf"
    by simp
  also have "\<dots> = (position k1 mod ?bf + length frags * ?pf) mod ?bf"
    by (simp add: mod_add_left_eq)
  also have "\<dots> = (position k + ?pf + length frags * ?pf) mod ?bf"
    unfolding c1 by (rule mod_add_left_eq)
  finally have cong: "position k' mod ?bf = (position k + length (f # frags) * ?pf) mod ?bf"
    by (simp add: add.assoc)
  have "position k' < ?bf" if "position k < ?bf" "?pf \<le> ?bf"
  proof -
    from wrap_less [OF that] have "position k1 < ?bf"
      unfolding p1 .
    with ih that(2) show ?thesis
      by simp
  qed
  with cong show ?case
    by blast
qed

text \<open>
  C7. Start with the running flag set and a ring present, at any position. Let the thread
  complete N times, each after a bus read that succeeds. Then the position has advanced
  by N times \<open>PERIOD_FRAMES\<close> modulo the buffer size: the new position is congruent to the
  old one plus N periods. When the old position lies inside the buffer and the buffer is
  at least one period long, as in every session, the new position lies inside the buffer
  too, so it is that sum reduced modulo the buffer size. In particular, with a buffer of
  four periods, five periods from position 0 leave the position at \<open>PERIOD_FRAMES\<close>.
\<close>

theorem position_advances:
  assumes "substream k = Some p" and "bit (flags k) 0"
    and "dma_area (runtimes k p) \<noteq> None"
    and "run cfg k (map (\<lambda>f. Thread (0, f)) frags) = Some k'"
  shows "position k' mod buffer_size (runtimes k p) =
           (position k + length frags * MATRIXIO_PERIOD_FRAMES cfg) mod buffer_size (runtimes k p) \<and>
         (position k < buffer_size (runtimes k p) \<and>
          MATRIXIO_PERIOD_FRAMES cfg \<le> buffer_size (runtimes k p) \<longrightarrow>
            position k' =
              (position k + length frags * MATRIXIO_PERIOD_FRAMES cfg) mod
                buffer_size (runtimes k p)) \<and>
         (buffer_size (runtimes k p) = 4 * MATRIXIO_PERIOD_FRAMES cfg \<and> position k = 0 \<and>
          length frags = 5 \<longrightarrow> position k' = MATRIXIO_PERIOD_FRAMES cfg)"
proof -
  let ?pf = "MATRIXIO_PERIOD_FRAMES cfg" and ?bf = "buffer_size (runtimes k p)"
  note adv = run_periods [OF assms]
  from adv have cong: "position k' mod ?bf = (position k + length frags * ?pf) mod ?bf"
    by blast
  have exact: "position k' = (position k + length frags * ?pf) mod ?bf"
    if "position k < ?bf" "?pf \<le> ?bf"
  proof -
    from adv that have "position k' < ?bf"
      by blast
    with cong show ?thesis
      by simp
  qed
  have "position k' = ?pf" if "?bf = 4 * ?pf" "position k = 0" "length frags = 5"
  proof (cases "?pf = 0")
    case True
    with cong that show ?thesis
      by simp
  next
    case False
    with that have "position k < ?bf" "?pf \<le> ?bf"
      by simp_all
    from exact [OF this] that have "position k' = (5 * ?pf) mod (4 * ?pf)"
      by simp
    also have "\<dots> = (5 mod 4) * ?pf"
      by (simp only: mult_mod_left [symmetric])
    finally show ?thesis
      by simp
  qed
  with cong exact show ?thesis
    by blast
qed

text \<open>
  The wrap-around on the small instance, whose buffer holds four periods: five periods
  from position 0 leave the position at 2, the length of one period.
\<close>

theorem position_advances_witness:
  "substream demo_running = Some 1 \<and> bit (flags demo_running) 0 \<and>
   dma_area (runtimes demo_running 1) \<noteq> None \<and>
   position demo_running < buffer_size (runtimes demo_running 1) \<and>
   MATRIXIO_PERIOD_FRAMES demo_consts \<le> buffer_size (runtimes demo_running 1) \<and>
   buffer_size (runtimes demo_running 1) = 4 * MATRIXIO_PERIOD_FRAMES demo_consts \<and>
   (\<exists>k'. run demo_consts demo_running
            (map (\<lambda>f. Thread (0, f)) [demo_frag, demo_frag, demo_frag, demo_frag, demo_frag])
            = Some k' \<and>
          position k' = 2 \<and> position k' = MATRIXIO_PERIOD_FRAMES demo_consts)"
proof -
  let ?frags = "[demo_frag, demo_frag, demo_frag, demo_frag, demo_frag]"
  have a: "substream demo_running = Some 1" and b: "bit (flags demo_running) 0"
    and c: "dma_area (runtimes demo_running 1) \<noteq> None"
    and d: "position demo_running < buffer_size (runtimes demo_running 1)"
    and e: "MATRIXIO_PERIOD_FRAMES demo_consts \<le> buffer_size (runtimes demo_running 1)"
    and f: "buffer_size (runtimes demo_running 1) = 4 * MATRIXIO_PERIOD_FRAMES demo_consts"
    by (simp_all add: demo_running_fields demo_runtime_def demo_consts_def)
  have "\<exists>k'. run demo_consts demo_running (map (\<lambda>f. Thread (0, f)) ?frags) = Some k'"
    by (simp add: demo_eval)
  then obtain k' where
    r: "run demo_consts demo_running (map (\<lambda>f. Thread (0, f)) ?frags) = Some k'"
    by blast
  from position_advances [OF a b c r] d e
  have "position k' = 2 \<and> position k' = MATRIXIO_PERIOD_FRAMES demo_consts"
    by (simp add: demo_running_fields demo_runtime_def demo_consts_def)
  with a b c d e f r show ?thesis
    by blast
qed

end
